theory Spec2Isabelle
  imports Complex_Main
begin

section \<open>Python values\<close>

text \<open>
  The connector handles three kinds of Python values: what the dynamic-variable store
  returns, the \<^verbatim>\<open>json=\<close> argument handed to \<^verbatim>\<open>requests.post\<close>, and what
  \<^verbatim>\<open>response.json()\<close> returns. All of them are values of the JSON fragment of Python:
  \<^verbatim>\<open>None\<close>, \<^verbatim>\<open>bool\<close>, \<^verbatim>\<open>int\<close>, \<^verbatim>\<open>float\<close>, \<^verbatim>\<open>str\<close>, \<^verbatim>\<open>list\<close> and \<^verbatim>\<open>dict\<close> with
  string keys. A float is a finite rational or one of the three special values that
  Python's JSON decoder accepts.
\<close>

datatype pyfloat = FFinite rat | FNaN | FInf | FNegInf

datatype pyval =
    PNone
  | PBool bool
  | PInt int
  | PFloat pyfloat
  | PStr string
  | PList "pyval list"
  | PDict "(string \<times> pyval) list"

text \<open>
  The exceptions of value operations; none is a \<^verbatim>\<open>requests.RequestException\<close>, so no
  handler of \<^verbatim>\<open>send_coordinates\<close> catches them.
\<close>

datatype py_exception = TypeError | AttributeError | KeyError

text \<open>Python truthiness, as \<^verbatim>\<open>if x:\<close> and \<^verbatim>\<open>a and b\<close> test it.\<close>

fun truthy :: "pyval \<Rightarrow> bool" where
  "truthy PNone = False"
| "truthy (PBool b) = b"
| "truthy (PInt i) = (i \<noteq> 0)"
| "truthy (PFloat f) = (f \<noteq> FFinite 0)"
| "truthy (PStr s) = (s \<noteq> [])"
| "truthy (PList xs) = (xs \<noteq> [])"
| "truthy (PDict kvs) = (kvs \<noteq> [])"

text \<open>Lookup of a key in a dict, kept as an association list.\<close>

fun dict_lookup :: "(string \<times> pyval) list \<Rightarrow> string \<Rightarrow> pyval option" where
  "dict_lookup [] k = None"
| "dict_lookup ((k', v) # kvs) k = (if k' = k then Some v else dict_lookup kvs k)"

fun starts_with :: "string \<Rightarrow> string \<Rightarrow> bool" where
  "starts_with s [] = True"
| "starts_with [] (c # cs) = False"
| "starts_with (d # ds) (c # cs) = (d = c \<and> starts_with ds cs)"

fun str_contains :: "string \<Rightarrow> string \<Rightarrow> bool" where
  "str_contains [] needle = (needle = [])"
| "str_contains (c # cs) needle = (starts_with (c # cs) needle \<or> str_contains cs needle)"

text \<open>
  \<^verbatim>\<open>key in container\<close> for a string key: key membership on a dict, element membership
  on a list, substring test on a str, and \<^verbatim>\<open>TypeError\<close> (argument is not iterable) on
  \<^verbatim>\<open>None\<close>, bool, int and float.
\<close>

fun py_contains :: "pyval \<Rightarrow> string \<Rightarrow> py_exception + bool" where
  "py_contains (PDict kvs) k = Inr (dict_lookup kvs k \<noteq> None)"
| "py_contains (PList xs) k = Inr (PStr k \<in> set xs)"
| "py_contains (PStr s) k = Inr (str_contains s k)"
| "py_contains PNone k = Inl TypeError"
| "py_contains (PBool b) k = Inl TypeError"
| "py_contains (PInt i) k = Inl TypeError"
| "py_contains (PFloat f) k = Inl TypeError"

text \<open>
  \<^verbatim>\<open>container[key]\<close> for a string key, evaluated in the source only after
  \<^verbatim>\<open>key in container\<close> was true: the value on a dict, \<^verbatim>\<open>TypeError\<close> on everything
  else (list and str indices must be integers, the others are not subscriptable).
  A dict without the key raises \<^verbatim>\<open>KeyError\<close>.
\<close>

fun py_getitem :: "pyval \<Rightarrow> string \<Rightarrow> py_exception + pyval" where
  "py_getitem (PDict kvs) k =
     (case dict_lookup kvs k of Some v \<Rightarrow> Inr v | None \<Rightarrow> Inl KeyError)"
| "py_getitem v k = Inl TypeError"

text \<open>
  \<^verbatim>\<open>obj.get(key)\<close>: the value or \<^verbatim>\<open>None\<close> on a dict, \<^verbatim>\<open>AttributeError\<close> on every other
  value, none of which has a \<^verbatim>\<open>get\<close> attribute.
\<close>

fun py_get :: "pyval \<Rightarrow> string \<Rightarrow> py_exception + pyval" where
  "py_get (PDict kvs) k =
     Inr (case dict_lookup kvs k of Some v \<Rightarrow> v | None \<Rightarrow> PNone)"
| "py_get v k = Inl AttributeError"

section \<open>Configuration and connector instance\<close>

record GPSFabricConfig =
  fabric_endpoint :: string
  request_timeout :: int

text \<open>
  Construction of the pydantic model: a field that the caller does not supply takes its
  \<^verbatim>\<open>Field(default=...)\<close>.
\<close>

definition GPSFabricConfig_new :: "string option \<Rightarrow> int option \<Rightarrow> GPSFabricConfig" where
  "GPSFabricConfig_new ep tm =
     \<lparr> fabric_endpoint = (case ep of None \<Rightarrow> ''http://localhost:8545'' | Some e \<Rightarrow> e),
       request_timeout = (case tm of None \<Rightarrow> 10 | Some t \<Rightarrow> t) \<rparr>"

text \<open>
  Modelled from the spec: \<^verbatim>\<open>IOProvider\<close> (providers.io_provider) is a process-wide
  singleton; the instance holds a reference to it, and its contents are part of the
  state below.
\<close>

datatype io_provider_ref = IOProvider

record GPSFabricConnector =
  self_config :: GPSFabricConfig
  self_io_provider :: io_provider_ref
  self_fabric_endpoint :: string
  self_request_timeout :: int

text \<open>
  \<^verbatim>\<open>__init__\<close>. Modelled from the spec: \<^verbatim>\<open>ActionConnector.__init__\<close> (actions.base)
  stores the configuration in \<^verbatim>\<open>self.config\<close>.
\<close>

definition GPSFabricConnector_init :: "GPSFabricConfig \<Rightarrow> GPSFabricConnector" where
  "GPSFabricConnector_init config =
     \<lparr> self_config = config,
       self_io_provider = IOProvider,
       self_fabric_endpoint = fabric_endpoint config,
       self_request_timeout = request_timeout config \<rparr>"

text \<open>
  Modelled from the spec: \<^verbatim>\<open>GPSAction\<close> and \<^verbatim>\<open>GPSInput\<close> (actions.gps.interface).
  The command is one of a small set of action kinds, of which the connector names only
  \<^verbatim>\<open>SHARE_LOCATION\<close>; every other kind is kept by its name.
\<close>

datatype GPSAction = SHARE_LOCATION | OtherAction string

record GPSInput =
  action :: GPSAction

section \<open>The HTTP exchange\<close>

text \<open>One call of \<^verbatim>\<open>requests.post(url, json=..., headers=..., timeout=...)\<close>.\<close>

record post_call =
  post_url :: string
  post_json :: pyval
  post_headers :: "(string \<times> string) list"
  post_timeout :: int

text \<open>
  What the source reads of a \<^verbatim>\<open>requests.Response\<close>: \<^verbatim>\<open>status_code\<close>, \<^verbatim>\<open>text\<close>, and
  the outcome of \<^verbatim>\<open>json()\<close>, which is the parsed value or a
  \<^verbatim>\<open>requests.exceptions.JSONDecodeError\<close> with its message.
\<close>

record response =
  status_code :: int
  text_body :: string
  json_body :: "string + pyval"

text \<open>
  \<^verbatim>\<open>Response.ok\<close> of the requests library: \<^verbatim>\<open>raise_for_status()\<close> raises for the
  client and server error codes 400 to 599, and \<^verbatim>\<open>ok\<close> is true when it does not.
\<close>

definition ok :: "response \<Rightarrow> bool" where
  "ok r = (\<not> (400 \<le> status_code r \<and> status_code r < 600))"

text \<open>
  An exception raised by \<^verbatim>\<open>requests.post\<close>: an instance of
  \<^verbatim>\<open>requests.RequestException\<close>, which may also be an instance of \<^verbatim>\<open>requests.Timeout\<close>, of
  \<^verbatim>\<open>requests.ConnectionError\<close> or of both (\<^verbatim>\<open>ConnectTimeout\<close>), with its message.
\<close>

record request_exception =
  is_Timeout :: bool
  is_ConnectionError :: bool
  exc_message :: string

datatype post_outcome = Raises request_exception | Returns response

section \<open>Log records\<close>

datatype log_level = INFO | ERROR

text \<open>
  One constructor for each message of the source, with the values its f-string
  interpolates.
\<close>

datatype log_message =
    MsgAction GPSAction
  | MsgSending
  | MsgLatitude pyval
  | MsgLongitude pyval
  | MsgYaw pyval
  | MsgCoordinatesNotAvailable pyval pyval pyval
  | MsgHttpError int string
  | MsgJsonParseFailed string
  | MsgJsonRpcError pyval pyval
  | MsgSharedSuccessfully
  | MsgFailedToShare
  | MsgTimedOut int
  | MsgConnectionError string
  | MsgErrorSending string

section \<open>State\<close>

text \<open>
  The state a call runs in: the connector instance, the contents of the dynamic-variable
  store, the log written so far and the POST calls issued so far.
\<close>

record state =
  self :: GPSFabricConnector
  dynamic_variables :: "string \<rightharpoonup> pyval"
  log_records :: "(log_level \<times> log_message) list"
  posts :: "post_call list"

definition logging_info :: "log_message \<Rightarrow> state \<Rightarrow> state" where
  "logging_info m s = s\<lparr>log_records := log_records s @ [(INFO, m)]\<rparr>"

definition logging_error :: "log_message \<Rightarrow> state \<Rightarrow> state" where
  "logging_error m s = s\<lparr>log_records := log_records s @ [(ERROR, m)]\<rparr>"

text \<open>
  Modelled from the spec: \<^verbatim>\<open>IOProvider.get_dynamic_variable\<close> (providers.io_provider), a
  key-value lookup that returns the stored value, or \<^verbatim>\<open>None\<close> when there is none.
\<close>

definition get_dynamic_variable :: "state \<Rightarrow> string \<Rightarrow> pyval" where
  "get_dynamic_variable s key = (case dynamic_variables s key of None \<Rightarrow> PNone | Some v \<Rightarrow> v)"

section \<open>send_coordinates and connect\<close>

text \<open>
  The function \<^verbatim>\<open>send_coordinates\<close> (fabric.py, lines 71 to 155) is one body. The model
  names its parts: the arguments of the POST (lines 97 to 109), the three handlers
  (lines 144 to 155), the checks of the response (lines 112 to 126) and the checks of the
  parsed body (lines 129 to 142).
\<close>

text \<open>The \<^verbatim>\<open>json=\<close> argument of the POST, lines 99 to 106.\<close>

definition envelope :: "pyval \<Rightarrow> pyval \<Rightarrow> pyval \<Rightarrow> pyval" where
  "envelope latitude longitude yaw =
     PDict [(''method'', PStr ''omp2p_shareStatus''),
            (''params'', PList [PDict [(''latitude'', latitude),
                                       (''longitude'', longitude),
                                       (''yaw'', yaw)]]),
            (''id'', PInt 1),
            (''jsonrpc'', PStr ''2.0'')]"

definition share_request :: "GPSFabricConnector \<Rightarrow> pyval \<Rightarrow> pyval \<Rightarrow> pyval \<Rightarrow> post_call" where
  "share_request c latitude longitude yaw =
     \<lparr> post_url = self_fabric_endpoint c,
       post_json = envelope latitude longitude yaw,
       post_headers = [(''Content-Type'', ''application/json'')],
       post_timeout = self_request_timeout c \<rparr>"

text \<open>
  The three \<^verbatim>\<open>except\<close> clauses of lines 144 to 155, in the order of the source: the
  first clause whose class the exception is an instance of handles it.
\<close>

definition handle_request_exception ::
  "request_exception \<Rightarrow> state \<Rightarrow> (py_exception + bool) \<times> state" where
  "handle_request_exception e s =
     (if is_Timeout e then
        (Inr False, logging_error (MsgTimedOut (self_request_timeout (self s))) s)
      else if is_ConnectionError e then
        (Inr False, logging_error (MsgConnectionError (exc_message e)) s)
      else
        (Inr False, logging_error (MsgErrorSending (exc_message e)) s))"

text \<open>
  The classification of a parsed body, lines 129 to 142: the \<^verbatim>\<open>"error"\<close> check, then
  the \<^verbatim>\<open>"result"\<close> check, whose \<^verbatim>\<open>and\<close> evaluates the subscript only when the
  membership test was true. An exception of a membership test, a subscript or a
  \<^verbatim>\<open>get\<close> is no \<^verbatim>\<open>RequestException\<close>, so no handler catches it and it leaves the
  function.
\<close>

definition classify_body :: "pyval \<Rightarrow> state \<Rightarrow> (py_exception + bool) \<times> state" where
  "classify_body response_data s =
     (case py_contains response_data ''error'' of
        Inl exc \<Rightarrow> (Inl exc, s)
      | Inr True \<Rightarrow>
          (case py_getitem response_data ''error'' of
             Inl exc \<Rightarrow> (Inl exc, s)
           | Inr error \<Rightarrow>
               (case py_get error ''code'' of
                  Inl exc \<Rightarrow> (Inl exc, s)
                | Inr code \<Rightarrow>
                    (case py_get error ''message'' of
                       Inl exc \<Rightarrow> (Inl exc, s)
                     | Inr message \<Rightarrow>
                         (Inr False, logging_error (MsgJsonRpcError code message) s))))
      | Inr False \<Rightarrow>
          (case py_contains response_data ''result'' of
             Inl exc \<Rightarrow> (Inl exc, s)
           | Inr False \<Rightarrow> (Inr False, logging_error MsgFailedToShare s)
           | Inr True \<Rightarrow>
               (case py_getitem response_data ''result'' of
                  Inl exc \<Rightarrow> (Inl exc, s)
                | Inr r \<Rightarrow>
                    (if truthy r then (Inr True, logging_info MsgSharedSuccessfully s)
                     else (Inr False, logging_error MsgFailedToShare s)))))"

text \<open>
  The checks of a response, lines 112 to 126: \<^verbatim>\<open>response.ok\<close>, then
  \<^verbatim>\<open>response.json()\<close> with its own handler for the decode error.
\<close>

definition handle_response :: "response \<Rightarrow> state \<Rightarrow> (py_exception + bool) \<times> state" where
  "handle_response resp s =
     (if \<not> ok resp then
        (Inr False, logging_error (MsgHttpError (status_code resp) (text_body resp)) s)
      else
        (case json_body resp of
           Inl e \<Rightarrow> (Inr False, logging_error (MsgJsonParseFailed e) s)
         | Inr response_data \<Rightarrow> classify_body response_data s))"

text \<open>
  \<^verbatim>\<open>send_coordinates\<close>. The network is the parameter \<open>net\<close>: what
  \<^verbatim>\<open>requests.post\<close> does with a call, which is to raise a \<^verbatim>\<open>RequestException\<close> or
  to return a response. Every call of \<^verbatim>\<open>requests.post\<close> is recorded in \<open>posts\<close>,
  whatever its outcome. The result is the returned bool, or the exception that leaves the
  function, with the state after the call.
\<close>

definition send_coordinates ::
  "(post_call \<Rightarrow> post_outcome) \<Rightarrow> state \<Rightarrow> (py_exception + bool) \<times> state" where
  "send_coordinates net s =
     (let s1 = logging_info MsgSending s;
          latitude = get_dynamic_variable s1 ''latitude'';
          longitude = get_dynamic_variable s1 ''longitude'';
          yaw = get_dynamic_variable s1 ''yaw_deg'';
          s2 = logging_info (MsgLatitude latitude) s1;
          s3 = logging_info (MsgLongitude longitude) s2;
          s4 = logging_info (MsgYaw yaw) s3
      in if latitude = PNone \<or> longitude = PNone \<or> yaw = PNone then
           (Inr False, logging_error (MsgCoordinatesNotAvailable latitude longitude yaw) s4)
         else
           (let req = share_request (self s4) latitude longitude yaw;
                s5 = s4\<lparr>posts := posts s4 @ [req]\<rparr>
            in case net req of
                 Raises e \<Rightarrow> handle_request_exception e s5
               | Returns resp \<Rightarrow> handle_response resp s5))"

text \<open>
  \<^verbatim>\<open>connect\<close> (lines 56 to 69), the body of the coroutine: it logs the action and, for
  \<^verbatim>\<open>SHARE_LOCATION\<close>, calls \<^verbatim>\<open>send_coordinates\<close> as an expression statement, outside
  any \<^verbatim>\<open>try\<close>. It returns \<^verbatim>\<open>None\<close>, or the exception that left
  \<^verbatim>\<open>send_coordinates\<close>.
\<close>

definition connect ::
  "(post_call \<Rightarrow> post_outcome) \<Rightarrow> GPSInput \<Rightarrow> state \<Rightarrow> (py_exception + unit) \<times> state" where
  "connect net output_interface s =
     (let s1 = logging_info (MsgAction (action output_interface)) s
      in if action output_interface = SHARE_LOCATION then
           (case send_coordinates net s1 of
              (Inl exc, s2) \<Rightarrow> (Inl exc, s2)
            | (Inr b, s2) \<Rightarrow> (Inr (), s2))
         else (Inr (), s1))"

text \<open>
  The POST call that \<^verbatim>\<open>send_coordinates\<close> builds in a state, from the instance and
  the three values it fetches there.
\<close>

definition current_request :: "state \<Rightarrow> post_call" where
  "current_request s =
     share_request (self s) (get_dynamic_variable s ''latitude'')
       (get_dynamic_variable s ''longitude'') (get_dynamic_variable s ''yaw_deg'')"

section \<open>Example inputs\<close>

text \<open>
  A connector built from a configuration that supplies no values, a state with a given
  store and nothing logged or posted yet, and a network that answers every POST with
  one fixed response.
\<close>

definition example_connector :: GPSFabricConnector where
  "example_connector = GPSFabricConnector_init (GPSFabricConfig_new None None)"

definition example_state :: "(string \<times> pyval) list \<Rightarrow> state" where
  "example_state vars =
     \<lparr> self = example_connector, dynamic_variables = map_of vars,
       log_records = [], posts = [] \<rparr>"

definition example_coordinates :: "(string \<times> pyval) list" where
  "example_coordinates =
     [(''latitude'', PFloat (FFinite (75 / 2))),
      (''longitude'', PFloat (FFinite (-122))),
      (''yaw_deg'', PInt 90)]"

definition example_net :: "int \<Rightarrow> string + pyval \<Rightarrow> post_call \<Rightarrow> post_outcome" where
  "example_net code body req =
     Returns \<lparr> status_code = code, text_body = [], json_body = body \<rparr>"

section \<open>Basic facts\<close>

lemma get_dynamic_variable_logging_info [simp]:
  "get_dynamic_variable (logging_info m s) k = get_dynamic_variable s k"
  by (simp add: get_dynamic_variable_def logging_info_def)

lemma self_logging_info [simp]: "self (logging_info m s) = self s"
  by (simp add: logging_info_def)

lemma self_logging_error [simp]: "self (logging_error m s) = self s"
  by (simp add: logging_error_def)

lemma posts_logging_info [simp]: "posts (logging_info m s) = posts s"
  by (simp add: logging_info_def)

lemma posts_logging_error [simp]: "posts (logging_error m s) = posts s"
  by (simp add: logging_error_def)

lemma classify_body_True_iff:
  "fst (classify_body d s) = Inr True \<longleftrightarrow>
     (\<exists>kvs r. d = PDict kvs \<and> dict_lookup kvs ''error'' = None
        \<and> dict_lookup kvs ''result'' = Some r \<and> truthy r)"
  by (cases d) (auto simp add: classify_body_def split: sum.splits bool.splits option.splits)

lemma handle_response_True_iff:
  "fst (handle_response resp s) = Inr True \<longleftrightarrow>
     (ok resp \<and> (\<exists>kvs r. json_body resp = Inr (PDict kvs) \<and> dict_lookup kvs ''error'' = None
        \<and> dict_lookup kvs ''result'' = Some r \<and> truthy r))"
  by (cases "json_body resp") (auto simp add: handle_response_def classify_body_True_iff)

lemma handle_request_exception_False: "fst (handle_request_exception e s) = Inr False"
  by (simp add: handle_request_exception_def)

lemma send_coordinates_present:
  assumes "get_dynamic_variable s ''latitude'' \<noteq> PNone"
      and "get_dynamic_variable s ''longitude'' \<noteq> PNone"
      and "get_dynamic_variable s ''yaw_deg'' \<noteq> PNone"
  shows "send_coordinates net s =
     (let s4 = logging_info (MsgYaw (get_dynamic_variable s ''yaw_deg''))
                (logging_info (MsgLongitude (get_dynamic_variable s ''longitude''))
                  (logging_info (MsgLatitude (get_dynamic_variable s ''latitude''))
                    (logging_info MsgSending s)));
          s5 = s4\<lparr>posts := posts s @ [current_request s]\<rparr>
      in case net (current_request s) of
           Raises e \<Rightarrow> handle_request_exception e s5
         | Returns resp \<Rightarrow> handle_response resp s5)"
  using assms by (simp add: send_coordinates_def current_request_def Let_def)

lemma send_coordinates_absent:
  assumes "get_dynamic_variable s ''latitude'' = PNone
         \<or> get_dynamic_variable s ''longitude'' = PNone
         \<or> get_dynamic_variable s ''yaw_deg'' = PNone"
  shows "fst (send_coordinates net s) = Inr False"
  using assms by (auto simp add: send_coordinates_def Let_def)

lemma send_coordinates_returns_True:
  "fst (send_coordinates net s) = Inr True \<longleftrightarrow>
      get_dynamic_variable s ''latitude'' \<noteq> PNone
    \<and> get_dynamic_variable s ''longitude'' \<noteq> PNone
    \<and> get_dynamic_variable s ''yaw_deg'' \<noteq> PNone
    \<and> (\<exists>resp kvs r.
          net (current_request s) = Returns resp
        \<and> ok resp
        \<and> json_body resp = Inr (PDict kvs)
        \<and> dict_lookup kvs ''error'' = None
        \<and> dict_lookup kvs ''result'' = Some r \<and> truthy r)"
proof (cases "get_dynamic_variable s ''latitude'' = PNone
         \<or> get_dynamic_variable s ''longitude'' = PNone
         \<or> get_dynamic_variable s ''yaw_deg'' = PNone")
  case True
  then show ?thesis using send_coordinates_absent [OF True, of net] by auto
next
  case False
  then show ?thesis
    by (cases "net (current_request s)")
       (simp_all add: send_coordinates_present Let_def handle_request_exception_False
          handle_response_True_iff)
qed

lemma classify_body_no_result:
  assumes "dict_lookup kvs ''result'' = None"
      and "\<forall>e. dict_lookup kvs ''error'' = Some e \<longrightarrow> (\<exists>ekvs. e = PDict ekvs)"
  shows "fst (classify_body (PDict kvs) s) = Inr False"
  using assms
  by (cases "dict_lookup kvs ''error''") (auto simp add: classify_body_def)

lemma send_coordinates_ok_body:
  assumes "get_dynamic_variable s ''latitude'' \<noteq> PNone"
      and "get_dynamic_variable s ''longitude'' \<noteq> PNone"
      and "get_dynamic_variable s ''yaw_deg'' \<noteq> PNone"
      and "net (current_request s) = Returns resp"
      and "ok resp"
      and "json_body resp = Inr d"
  shows "fst (send_coordinates net s) =
           fst (classify_body d
             ((logging_info (MsgYaw (get_dynamic_variable s ''yaw_deg''))
                (logging_info (MsgLongitude (get_dynamic_variable s ''longitude''))
                  (logging_info (MsgLatitude (get_dynamic_variable s ''latitude''))
                    (logging_info MsgSending s))))\<lparr>posts := posts s @ [current_request s]\<rparr>))"
  using assms by (simp add: send_coordinates_present Let_def handle_response_def)

lemma example_present:
  "get_dynamic_variable (example_state example_coordinates) ''latitude'' = PFloat (FFinite (75 / 2))"
  "get_dynamic_variable (example_state example_coordinates) ''longitude'' = PFloat (FFinite (-122))"
  "get_dynamic_variable (example_state example_coordinates) ''yaw_deg'' = PInt 90"
  by (simp_all add: get_dynamic_variable_def example_state_def example_coordinates_def)

lemma classify_body_state:
  "snd (classify_body d s) = s\<lparr>log_records := log_records (snd (classify_body d s))\<rparr>"
  by (simp add: classify_body_def logging_info_def logging_error_def
        split: sum.splits bool.splits)

lemma classify_body_log:
  "\<exists>ys. log_records (snd (classify_body d s)) = log_records s @ ys"
  by (simp add: classify_body_def logging_info_def logging_error_def
        split: sum.splits bool.splits)

lemma classify_body_frame:
  "\<exists>ys. snd (classify_body d s) = s\<lparr>log_records := log_records s @ ys\<rparr>"
proof -
  from classify_body_log obtain ys
    where "log_records (snd (classify_body d s)) = log_records s @ ys" by blast
  with classify_body_state [of d s]
  have "snd (classify_body d s) = s\<lparr>log_records := log_records s @ ys\<rparr>" by simp
  then show ?thesis ..
qed

lemma handle_response_frame:
  "\<exists>ys. snd (handle_response resp s) = s\<lparr>log_records := log_records s @ ys\<rparr>"
  using classify_body_frame
  by (auto simp add: handle_response_def logging_error_def split: sum.splits)

lemma handle_request_exception_frame:
  "\<exists>ys. snd (handle_request_exception e s) = s\<lparr>log_records := log_records s @ ys\<rparr>"
  by (auto simp add: handle_request_exception_def logging_error_def)

lemma send_coordinates_frame:
  "\<exists>ys. snd (send_coordinates net s) =
     s\<lparr>log_records := log_records s @ (INFO, MsgSending) # ys,
       posts := posts s @
         (if get_dynamic_variable s ''latitude'' = PNone
           \<or> get_dynamic_variable s ''longitude'' = PNone
           \<or> get_dynamic_variable s ''yaw_deg'' = PNone
          then [] else [current_request s])\<rparr>"
proof (cases "get_dynamic_variable s ''latitude'' = PNone
         \<or> get_dynamic_variable s ''longitude'' = PNone
         \<or> get_dynamic_variable s ''yaw_deg'' = PNone")
  case True
  then show ?thesis
    by (auto simp add: send_coordinates_def Let_def logging_info_def logging_error_def
          get_dynamic_variable_def)
next
  case False
  let ?s5 = "(logging_info (MsgYaw (get_dynamic_variable s ''yaw_deg''))
                (logging_info (MsgLongitude (get_dynamic_variable s ''longitude''))
                  (logging_info (MsgLatitude (get_dynamic_variable s ''latitude''))
                    (logging_info MsgSending s))))\<lparr>posts := posts s @ [current_request s]\<rparr>"
  have "\<exists>ys. snd (send_coordinates net s) = ?s5\<lparr>log_records := log_records ?s5 @ ys\<rparr>"
  proof (cases "net (current_request s)")
    case (Raises e)
    with False handle_request_exception_frame [of e ?s5] show ?thesis
      by (simp add: send_coordinates_present Let_def)
  next
    case (Returns resp)
    with False handle_response_frame [of resp ?s5] show ?thesis
      by (simp add: send_coordinates_present Let_def)
  qed
  then obtain ys where "snd (send_coordinates net s) = ?s5\<lparr>log_records := log_records ?s5 @ ys\<rparr>"
    by blast
  with False show ?thesis
    by (intro exI [of _ "(INFO, MsgLatitude (get_dynamic_variable s ''latitude''))
          # (INFO, MsgLongitude (get_dynamic_variable s ''longitude''))
          # (INFO, MsgYaw (get_dynamic_variable s ''yaw_deg'')) # ys"])
       (simp add: logging_info_def)
qed

lemma send_coordinates_posts:
  "posts (snd (send_coordinates net s)) =
     posts s @
       (if get_dynamic_variable s ''latitude'' = PNone
         \<or> get_dynamic_variable s ''longitude'' = PNone
         \<or> get_dynamic_variable s ''yaw_deg'' = PNone
        then [] else [current_request s])"
proof -
  from send_coordinates_frame [of net s] obtain ys where
    "snd (send_coordinates net s) =
     s\<lparr>log_records := log_records s @ (INFO, MsgSending) # ys,
       posts := posts s @
         (if get_dynamic_variable s ''latitude'' = PNone
           \<or> get_dynamic_variable s ''longitude'' = PNone
           \<or> get_dynamic_variable s ''yaw_deg'' = PNone
          then [] else [current_request s])\<rparr>"
    by blast
  then show ?thesis by simp
qed

lemma send_coordinates_self: "self (snd (send_coordinates net s)) = self s"
proof -
  from send_coordinates_frame [of net s] obtain ys where
    "snd (send_coordinates net s) =
     s\<lparr>log_records := log_records s @ (INFO, MsgSending) # ys,
       posts := posts s @
         (if get_dynamic_variable s ''latitude'' = PNone
           \<or> get_dynamic_variable s ''longitude'' = PNone
           \<or> get_dynamic_variable s ''yaw_deg'' = PNone
          then [] else [current_request s])\<rparr>"
    by blast
  then show ?thesis by simp
qed

lemma send_coordinates_dynamic_variables:
  "dynamic_variables (snd (send_coordinates net s)) = dynamic_variables s"
proof -
  from send_coordinates_frame [of net s] obtain ys where
    "snd (send_coordinates net s) =
     s\<lparr>log_records := log_records s @ (INFO, MsgSending) # ys,
       posts := posts s @
         (if get_dynamic_variable s ''latitude'' = PNone
           \<or> get_dynamic_variable s ''longitude'' = PNone
           \<or> get_dynamic_variable s ''yaw_deg'' = PNone
          then [] else [current_request s])\<rparr>"
    by blast
  then show ?thesis by simp
qed

lemma send_coordinates_log:
  "\<exists>ys. log_records (snd (send_coordinates net s)) = log_records s @ (INFO, MsgSending) # ys"
proof -
  from send_coordinates_frame [of net s] obtain ys where
    "snd (send_coordinates net s) =
     s\<lparr>log_records := log_records s @ (INFO, MsgSending) # ys,
       posts := posts s @
         (if get_dynamic_variable s ''latitude'' = PNone
           \<or> get_dynamic_variable s ''longitude'' = PNone
           \<or> get_dynamic_variable s ''yaw_deg'' = PNone
          then [] else [current_request s])\<rparr>"
    by blast
  then show ?thesis by simp
qed

lemma snd_connect:
  "snd (connect net output_interface s) =
     (if action output_interface = SHARE_LOCATION
      then snd (send_coordinates net (logging_info (MsgAction SHARE_LOCATION) s))
      else logging_info (MsgAction (action output_interface)) s)"
  by (simp add: connect_def Let_def split: prod.splits sum.splits)

lemma fst_connect:
  "fst (connect net output_interface s) =
     (if action output_interface = SHARE_LOCATION
      then (case fst (send_coordinates net (logging_info (MsgAction SHARE_LOCATION) s)) of
              Inl exc \<Rightarrow> Inl exc | Inr b \<Rightarrow> Inr ())
      else Inr ())"
  by (simp add: connect_def Let_def split: prod.splits sum.splits)

lemma classify_body_not_container:
  assumes "\<forall>kvs. d \<noteq> PDict kvs" and "\<forall>xs. d \<noteq> PList xs" and "\<forall>t. d \<noteq> PStr t"
  shows "fst (classify_body d s) = Inl TypeError"
  using assms by (cases d) (simp_all add: classify_body_def)

lemma classify_body_error_not_object:
  assumes "dict_lookup kvs ''error'' = Some e" and "\<forall>ekvs. e \<noteq> PDict ekvs"
  shows "fst (classify_body (PDict kvs) s) = Inl AttributeError"
  using assms by (cases e) (simp_all add: classify_body_def)

lemma classify_body_object_returns:
  assumes "\<forall>e. dict_lookup kvs ''error'' = Some e \<longrightarrow> (\<exists>ekvs. e = PDict ekvs)"
  shows "\<exists>b. fst (classify_body (PDict kvs) s) = Inr b"
  using assms
  by (cases "dict_lookup kvs ''error''"; cases "dict_lookup kvs ''result''")
     (auto simp add: classify_body_def)

section \<open>Validation of the fetched values\<close>

text \<open>
  C1. When at least one of the three lookups \<^verbatim>\<open>"latitude"\<close>, \<^verbatim>\<open>"longitude"\<close>,
  \<^verbatim>\<open>"yaw_deg"\<close> returns \<^verbatim>\<open>None\<close>, \<^verbatim>\<open>send_coordinates\<close> returns \<^verbatim>\<open>False\<close>, its last log
  record is an error that names the three fetched values, and the list of issued POST
  calls is unchanged; the hypothesis is the disjunction of the three absence conditions,
  so one missing value is enough.
\<close>

theorem send_coordinates_missing_value_aborts:
  assumes "get_dynamic_variable s ''latitude'' = PNone
         \<or> get_dynamic_variable s ''longitude'' = PNone
         \<or> get_dynamic_variable s ''yaw_deg'' = PNone"
  shows "send_coordinates net s =
           (Inr False,
            s\<lparr>log_records := log_records s @
                 [(INFO, MsgSending),
                  (INFO, MsgLatitude (get_dynamic_variable s ''latitude'')),
                  (INFO, MsgLongitude (get_dynamic_variable s ''longitude'')),
                  (INFO, MsgYaw (get_dynamic_variable s ''yaw_deg'')),
                  (ERROR, MsgCoordinatesNotAvailable (get_dynamic_variable s ''latitude'')
                     (get_dynamic_variable s ''longitude'')
                     (get_dynamic_variable s ''yaw_deg''))]\<rparr>)
       \<and> posts (snd (send_coordinates net s)) = posts s"
  using assms
  by (auto simp add: send_coordinates_def Let_def logging_info_def logging_error_def
        get_dynamic_variable_def)

theorem send_coordinates_missing_value_aborts_witness:
  "get_dynamic_variable (example_state [(''latitude'', PInt 1), (''longitude'', PInt 2)])
     ''yaw_deg'' = PNone
   \<and> fst (send_coordinates (example_net 200 (Inr (PDict [(''result'', PBool True)])))
            (example_state [(''latitude'', PInt 1), (''longitude'', PInt 2)])) = Inr False
   \<and> posts (snd (send_coordinates (example_net 200 (Inr (PDict [(''result'', PBool True)])))
            (example_state [(''latitude'', PInt 1), (''longitude'', PInt 2)]))) = []"
proof -
  have h: "get_dynamic_variable (example_state [(''latitude'', PInt 1), (''longitude'', PInt 2)])
     ''yaw_deg'' = PNone"
    by (simp add: get_dynamic_variable_def example_state_def)
  then have "get_dynamic_variable (example_state [(''latitude'', PInt 1), (''longitude'', PInt 2)])
       ''latitude'' = PNone
     \<or> get_dynamic_variable (example_state [(''latitude'', PInt 1), (''longitude'', PInt 2)])
       ''longitude'' = PNone
     \<or> get_dynamic_variable (example_state [(''latitude'', PInt 1), (''longitude'', PInt 2)])
       ''yaw_deg'' = PNone"
    by simp
  from send_coordinates_missing_value_aborts [OF this,
      of "example_net 200 (Inr (PDict [(''result'', PBool True)]))"] h
  show ?thesis by (simp add: example_state_def)
qed

section \<open>The returned boolean\<close>

text \<open>
  C2, as the code has it. \<^verbatim>\<open>send_coordinates\<close> returns \<^verbatim>\<open>True\<close> if and only if the three
  values are present (so that the POST is issued), \<^verbatim>\<open>requests.post\<close> returns a response
  instead of raising, the status code of the response is below 400 or at least 600 (which
  is what \<^verbatim>\<open>response.ok\<close> tests, a wider range than the codes 200 to 299), the body
  parses to a JSON object, that object has no \<^verbatim>\<open>"error"\<close> key, and it has a
  \<^verbatim>\<open>"result"\<close> key whose value is truthy. In particular, for a response with status
  200: the bodies \<^verbatim>\<open>{"result": false}\<close> and \<^verbatim>\<open>{"result": null}\<close> give \<^verbatim>\<open>False\<close>; an
  object without a \<^verbatim>\<open>"result"\<close> key whose \<^verbatim>\<open>"error"\<close> field is absent or an object
  gives \<^verbatim>\<open>False\<close>; and \<^verbatim>\<open>{"result": true}\<close> gives \<^verbatim>\<open>True\<close>.
\<close>

theorem send_coordinates_true_iff:
  "(fst (send_coordinates net s) = Inr True \<longleftrightarrow>
      get_dynamic_variable s ''latitude'' \<noteq> PNone
    \<and> get_dynamic_variable s ''longitude'' \<noteq> PNone
    \<and> get_dynamic_variable s ''yaw_deg'' \<noteq> PNone
    \<and> (\<exists>resp kvs r.
          net (current_request s) = Returns resp
        \<and> (status_code resp < 400 \<or> 600 \<le> status_code resp)
        \<and> json_body resp = Inr (PDict kvs)
        \<and> dict_lookup kvs ''error'' = None
        \<and> dict_lookup kvs ''result'' = Some r \<and> truthy r))
 \<and> (\<forall>resp kvs.
        get_dynamic_variable s ''latitude'' \<noteq> PNone
      \<and> get_dynamic_variable s ''longitude'' \<noteq> PNone
      \<and> get_dynamic_variable s ''yaw_deg'' \<noteq> PNone
      \<and> net (current_request s) = Returns resp
      \<and> status_code resp = 200
      \<and> json_body resp = Inr (PDict kvs) \<longrightarrow>
        (kvs = [(''result'', PBool False)] \<longrightarrow> fst (send_coordinates net s) = Inr False)
      \<and> (kvs = [(''result'', PNone)] \<longrightarrow> fst (send_coordinates net s) = Inr False)
      \<and> (dict_lookup kvs ''result'' = None
           \<and> (\<forall>e. dict_lookup kvs ''error'' = Some e \<longrightarrow> (\<exists>ekvs. e = PDict ekvs)) \<longrightarrow>
             fst (send_coordinates net s) = Inr False)
      \<and> (kvs = [(''result'', PBool True)] \<longrightarrow> fst (send_coordinates net s) = Inr True))"
proof (intro conjI allI impI)
  have range: "ok resp \<longleftrightarrow> (status_code resp < 400 \<or> 600 \<le> status_code resp)" for resp
    by (auto simp add: ok_def)
  show "fst (send_coordinates net s) = Inr True \<longleftrightarrow>
      get_dynamic_variable s ''latitude'' \<noteq> PNone
    \<and> get_dynamic_variable s ''longitude'' \<noteq> PNone
    \<and> get_dynamic_variable s ''yaw_deg'' \<noteq> PNone
    \<and> (\<exists>resp kvs r.
          net (current_request s) = Returns resp
        \<and> (status_code resp < 400 \<or> 600 \<le> status_code resp)
        \<and> json_body resp = Inr (PDict kvs)
        \<and> dict_lookup kvs ''error'' = None
        \<and> dict_lookup kvs ''result'' = Some r \<and> truthy r)"
    unfolding range [symmetric] by (rule send_coordinates_returns_True)
next
  fix resp kvs
  assume h: "get_dynamic_variable s ''latitude'' \<noteq> PNone
      \<and> get_dynamic_variable s ''longitude'' \<noteq> PNone
      \<and> get_dynamic_variable s ''yaw_deg'' \<noteq> PNone
      \<and> net (current_request s) = Returns resp
      \<and> status_code resp = 200
      \<and> json_body resp = Inr (PDict kvs)"
  then have okr: "ok resp" by (simp add: ok_def)
  from h have p: "get_dynamic_variable s ''latitude'' \<noteq> PNone"
      "get_dynamic_variable s ''longitude'' \<noteq> PNone"
      "get_dynamic_variable s ''yaw_deg'' \<noteq> PNone"
      "net (current_request s) = Returns resp"
      "json_body resp = Inr (PDict kvs)"
    by simp_all
  note eq = send_coordinates_ok_body [where net = net and s = s, OF p(1) p(2) p(3) p(4) okr p(5)]
  {
    assume "kvs = [(''result'', PBool False)]"
    then show "fst (send_coordinates net s) = Inr False"
      by (simp add: eq classify_body_def)
  }
  {
    assume "kvs = [(''result'', PNone)]"
    then show "fst (send_coordinates net s) = Inr False"
      by (simp add: eq classify_body_def)
  }
  {
    assume "dict_lookup kvs ''result'' = None
           \<and> (\<forall>e. dict_lookup kvs ''error'' = Some e \<longrightarrow> (\<exists>ekvs. e = PDict ekvs))"
    then show "fst (send_coordinates net s) = Inr False"
      by (simp add: eq classify_body_no_result)
  }
  {
    assume "kvs = [(''result'', PBool True)]"
    then show "fst (send_coordinates net s) = Inr True"
      by (simp add: eq classify_body_def)
  }
qed

theorem send_coordinates_true_iff_witness:
  "fst (send_coordinates (example_net 200 (Inr (PDict [(''result'', PBool True)])))
          (example_state example_coordinates)) = Inr True
 \<and> fst (send_coordinates (example_net 200 (Inr (PDict [])))
          (example_state example_coordinates)) = Inr False
 \<and> fst (send_coordinates (example_net 404 (Inr (PDict [(''result'', PBool True)])))
          (example_state example_coordinates)) \<noteq> Inr True"
proof -
  have a: "fst (send_coordinates (example_net 200 (Inr (PDict [(''result'', PBool True)])))
          (example_state example_coordinates)) = Inr True"
    using send_coordinates_true_iff [of "example_net 200 (Inr (PDict [(''result'', PBool True)]))"
                "example_state example_coordinates"]
    by (simp add: example_present example_net_def)
  have b: "fst (send_coordinates (example_net 200 (Inr (PDict [])))
          (example_state example_coordinates)) = Inr False"
    using send_coordinates_true_iff [of "example_net 200 (Inr (PDict []))" "example_state example_coordinates"]
    by (simp add: example_present example_net_def)
  have c: "fst (send_coordinates (example_net 404 (Inr (PDict [(''result'', PBool True)])))
          (example_state example_coordinates)) \<noteq> Inr True"
    using send_coordinates_true_iff [of "example_net 404 (Inr (PDict [(''result'', PBool True)]))"
                "example_state example_coordinates"]
    by (simp add: example_present example_net_def)
  from a b c show ?thesis by simp
qed

text \<open>
  Two inputs at which the statement with the success range 200 to 299, and with every
  body lacking a \<^verbatim>\<open>"result"\<close> key, fails. A response with status 300 and body
  \<^verbatim>\<open>{"result": true}\<close> makes \<^verbatim>\<open>send_coordinates\<close> return \<^verbatim>\<open>True\<close>, although 300 is
  outside 200 to 299. A response with status 200 and body \<^verbatim>\<open>{"error": "boom"}\<close>, which
  has no \<^verbatim>\<open>"result"\<close> key, does not give \<^verbatim>\<open>False\<close>: \<^verbatim>\<open>AttributeError\<close> leaves the
  function.
\<close>

theorem send_coordinates_true_counterexample:
  "\<not> (200 \<le> (300::int) \<and> (300::int) < 300)
 \<and> fst (send_coordinates (example_net 300 (Inr (PDict [(''result'', PBool True)])))
          (example_state example_coordinates)) = Inr True
 \<and> dict_lookup [(''error'', PStr ''boom'')] ''result'' = None
 \<and> fst (send_coordinates (example_net 200 (Inr (PDict [(''error'', PStr ''boom'')])))
          (example_state example_coordinates)) = Inl AttributeError"
  by (simp add: send_coordinates_present example_present Let_def example_net_def
        handle_response_def ok_def classify_body_def)

section \<open>The request\<close>

text \<open>
  C3. When the three values are present, \<^verbatim>\<open>send_coordinates\<close> issues exactly one POST:
  the list of issued calls grows by one call, whose URL is the instance's
  \<^verbatim>\<open>fabric_endpoint\<close>, whose only header is \<^verbatim>\<open>Content-Type: application/json\<close>, whose
  timeout is the instance's \<^verbatim>\<open>request_timeout\<close>, and whose JSON body is the JSON-RPC
  envelope with method \<^verbatim>\<open>omp2p_shareStatus\<close>, the one-element parameter list holding the
  fetched latitude, longitude and yaw, id 1 and version \<^verbatim>\<open>"2.0"\<close>. For an instance built
  by \<^verbatim>\<open>__init__\<close> from a configuration, URL and timeout are the configured ones.
\<close>

theorem send_coordinates_issues_one_post:
  assumes "get_dynamic_variable s ''latitude'' \<noteq> PNone"
      and "get_dynamic_variable s ''longitude'' \<noteq> PNone"
      and "get_dynamic_variable s ''yaw_deg'' \<noteq> PNone"
  shows "posts (snd (send_coordinates net s)) =
           posts s @
             [\<lparr> post_url = self_fabric_endpoint (self s),
                post_json =
                  PDict [(''method'', PStr ''omp2p_shareStatus''),
                         (''params'',
                            PList [PDict [(''latitude'', get_dynamic_variable s ''latitude''),
                                          (''longitude'', get_dynamic_variable s ''longitude''),
                                          (''yaw'', get_dynamic_variable s ''yaw_deg'')]]),
                         (''id'', PInt 1),
                         (''jsonrpc'', PStr ''2.0'')],
                post_headers = [(''Content-Type'', ''application/json'')],
                post_timeout = self_request_timeout (self s) \<rparr>]
       \<and> (\<forall>config. self s = GPSFabricConnector_init config \<longrightarrow>
             post_url (last (posts (snd (send_coordinates net s)))) = fabric_endpoint config
           \<and> post_timeout (last (posts (snd (send_coordinates net s))))
               = request_timeout config)"
  using assms
  by (simp add: send_coordinates_posts current_request_def share_request_def envelope_def
        GPSFabricConnector_init_def)

theorem send_coordinates_issues_one_post_witness:
  "posts (snd (send_coordinates (example_net 200 (Inr (PDict [(''result'', PBool True)])))
     (example_state example_coordinates))) =
     [\<lparr> post_url = ''http://localhost:8545'',
        post_json =
          PDict [(''method'', PStr ''omp2p_shareStatus''),
                 (''params'',
                    PList [PDict [(''latitude'', PFloat (FFinite (75 / 2))),
                                  (''longitude'', PFloat (FFinite (-122))),
                                  (''yaw'', PInt 90)]]),
                 (''id'', PInt 1),
                 (''jsonrpc'', PStr ''2.0'')],
        post_headers = [(''Content-Type'', ''application/json'')],
        post_timeout = 10 \<rparr>]"
  using send_coordinates_issues_one_post [of "example_state example_coordinates"
      "example_net 200 (Inr (PDict [(''result'', PBool True)]))"]
  by (simp add: example_present)
     (simp add: example_state_def example_connector_def GPSFabricConnector_init_def
        GPSFabricConfig_new_def)

section \<open>Order of the classification\<close>

text \<open>
  C4. The order of the classification does not make every body with an \<^verbatim>\<open>"error"\<close>
  field return \<^verbatim>\<open>False\<close>: for a response with status 200 and body
  \<^verbatim>\<open>{"error": "boom", "result": true}\<close>, \<^verbatim>\<open>send_coordinates\<close> does not return;
  \<^verbatim>\<open>AttributeError\<close>, raised by \<^verbatim>\<open>error.get('code')\<close> on the string, leaves it.
\<close>

theorem error_field_not_object_raises:
  "fst (send_coordinates
          (example_net 200 (Inr (PDict [(''error'', PStr ''boom''), (''result'', PBool True)])))
          (example_state example_coordinates)) = Inl AttributeError"
  by (simp add: send_coordinates_present example_present Let_def example_net_def
        handle_response_def ok_def classify_body_def)

text \<open>
  What does hold of the order: a status for which \<^verbatim>\<open>response.ok\<close> is false gives
  \<^verbatim>\<open>False\<close> whatever the body is; a body that does not parse gives \<^verbatim>\<open>False\<close>; an
  \<^verbatim>\<open>"error"\<close> field whose value is an object gives \<^verbatim>\<open>False\<close> whatever \<^verbatim>\<open>"result"\<close>
  is; and with any \<^verbatim>\<open>"error"\<close> field the call never returns \<^verbatim>\<open>True\<close>.
\<close>

lemma classification_order:
  assumes "get_dynamic_variable s ''latitude'' \<noteq> PNone"
      and "get_dynamic_variable s ''longitude'' \<noteq> PNone"
      and "get_dynamic_variable s ''yaw_deg'' \<noteq> PNone"
      and "net (current_request s) = Returns resp"
  shows "\<not> ok resp \<longrightarrow> fst (send_coordinates net s) = Inr False"
    and "ok resp \<and> (\<exists>e. json_body resp = Inl e) \<longrightarrow> fst (send_coordinates net s) = Inr False"
    and "ok resp \<and> json_body resp = Inr (PDict kvs)
           \<and> dict_lookup kvs ''error'' = Some (PDict ekvs) \<longrightarrow>
         fst (send_coordinates net s) = Inr False"
    and "ok resp \<and> json_body resp = Inr (PDict kvs)
           \<and> dict_lookup kvs ''error'' \<noteq> None \<longrightarrow>
         fst (send_coordinates net s) \<noteq> Inr True"
  using assms
  by (auto simp add: send_coordinates_present Let_def handle_response_def classify_body_def
        split: sum.splits)

section \<open>Exceptions that leave the connector\<close>

text \<open>
  C5. Not every outcome of the HTTP exchange is turned into \<^verbatim>\<open>False\<close>: for a response
  with status 200 whose body is the JSON number \<^verbatim>\<open>5\<close>, \<^verbatim>\<open>TypeError\<close> leaves
  \<^verbatim>\<open>send_coordinates\<close>, and, no handler being in \<^verbatim>\<open>connect\<close>, leaves \<^verbatim>\<open>connect\<close> for
  \<^verbatim>\<open>SHARE_LOCATION\<close> as well.
\<close>

theorem non_object_body_exception_propagates:
  "fst (send_coordinates (example_net 200 (Inr (PInt 5)))
          (example_state example_coordinates)) = Inl TypeError
 \<and> fst (connect (example_net 200 (Inr (PInt 5))) \<lparr>action = SHARE_LOCATION\<rparr>
          (example_state example_coordinates)) = Inl TypeError"
  by (simp add: fst_connect send_coordinates_present example_present Let_def example_net_def
        handle_response_def ok_def classify_body_def)

text \<open>
  The failures that are handled: an exception of \<^verbatim>\<open>requests.post\<close>, a status for which
  \<^verbatim>\<open>response.ok\<close> is false and a body that does not parse each give \<^verbatim>\<open>False\<close>, and an
  object body whose \<^verbatim>\<open>"error"\<close> field, if it has one, is an object makes the call
  return a bool.
\<close>

lemma failures_handled_locally:
  assumes "get_dynamic_variable s ''latitude'' \<noteq> PNone"
      and "get_dynamic_variable s ''longitude'' \<noteq> PNone"
      and "get_dynamic_variable s ''yaw_deg'' \<noteq> PNone"
  shows "net (current_request s) = Raises e \<longrightarrow> fst (send_coordinates net s) = Inr False"
    and "net (current_request s) = Returns resp \<and> \<not> ok resp \<longrightarrow>
           fst (send_coordinates net s) = Inr False"
    and "net (current_request s) = Returns resp \<and> ok resp \<and> json_body resp = Inl msg \<longrightarrow>
           fst (send_coordinates net s) = Inr False"
    and "net (current_request s) = Returns resp \<and> ok resp \<and> json_body resp = Inr (PDict kvs)
           \<and> (\<forall>e. dict_lookup kvs ''error'' = Some e \<longrightarrow> (\<exists>ekvs. e = PDict ekvs)) \<longrightarrow>
           (\<exists>b. fst (send_coordinates net s) = Inr b)"
  using assms classify_body_object_returns
  by (auto simp add: send_coordinates_present Let_def handle_response_def
        handle_request_exception_def)

section \<open>Dispatch\<close>

text \<open>
  C6. \<^verbatim>\<open>connect\<close> calls \<^verbatim>\<open>send_coordinates\<close> if and only if the action is
  \<^verbatim>\<open>SHARE_LOCATION\<close>. For every other action it returns \<^verbatim>\<open>None\<close> and changes nothing
  but the log, to which it adds the one record of the action; no POST is issued. For
  \<^verbatim>\<open>SHARE_LOCATION\<close> the state after \<^verbatim>\<open>connect\<close> is the state after
  \<^verbatim>\<open>send_coordinates\<close>, and whichever boolean \<^verbatim>\<open>send_coordinates\<close> returns,
  \<^verbatim>\<open>connect\<close> returns \<^verbatim>\<open>None\<close>. The call is visible in the log: the record that
  \<^verbatim>\<open>send_coordinates\<close> writes on entry is among the records added by \<^verbatim>\<open>connect\<close>
  exactly for \<^verbatim>\<open>SHARE_LOCATION\<close>.
\<close>

theorem connect_dispatch:
  "(action output_interface \<noteq> SHARE_LOCATION \<longrightarrow>
      connect net output_interface s =
        (Inr (), s\<lparr>log_records := log_records s @ [(INFO, MsgAction (action output_interface))]\<rparr>)
    \<and> posts (snd (connect net output_interface s)) = posts s)
 \<and> (action output_interface = SHARE_LOCATION \<longrightarrow>
      snd (connect net output_interface s) =
        snd (send_coordinates net (logging_info (MsgAction SHARE_LOCATION) s))
    \<and> (\<forall>b. fst (send_coordinates net (logging_info (MsgAction SHARE_LOCATION) s)) = Inr b \<longrightarrow>
           fst (connect net output_interface s) = Inr ()))
 \<and> ((INFO, MsgSending) \<in> set (drop (length (log_records s))
        (log_records (snd (connect net output_interface s))))
      \<longleftrightarrow> action output_interface = SHARE_LOCATION)"
proof (intro conjI impI allI)
  assume "action output_interface \<noteq> SHARE_LOCATION"
  then show "connect net output_interface s =
        (Inr (), s\<lparr>log_records := log_records s @ [(INFO, MsgAction (action output_interface))]\<rparr>)"
    by (simp add: connect_def logging_info_def)
next
  assume "action output_interface \<noteq> SHARE_LOCATION"
  then show "posts (snd (connect net output_interface s)) = posts s"
    by (simp add: snd_connect)
next
  assume "action output_interface = SHARE_LOCATION"
  then show "snd (connect net output_interface s) =
        snd (send_coordinates net (logging_info (MsgAction SHARE_LOCATION) s))"
    by (simp add: snd_connect)
next
  fix b
  assume "action output_interface = SHARE_LOCATION"
    and "fst (send_coordinates net (logging_info (MsgAction SHARE_LOCATION) s)) = Inr b"
  then show "fst (connect net output_interface s) = Inr ()"
    by (simp add: fst_connect)
next
  show "(INFO, MsgSending) \<in> set (drop (length (log_records s))
        (log_records (snd (connect net output_interface s))))
      \<longleftrightarrow> action output_interface = SHARE_LOCATION"
  proof (cases "action output_interface = SHARE_LOCATION")
    case True
    from send_coordinates_log [of net "logging_info (MsgAction SHARE_LOCATION) s"]
    obtain ys where "log_records (snd (send_coordinates net
        (logging_info (MsgAction SHARE_LOCATION) s))) =
        log_records (logging_info (MsgAction SHARE_LOCATION) s) @ (INFO, MsgSending) # ys"
      by blast
    with True show ?thesis
      by (simp add: snd_connect logging_info_def)
  next
    case False
    then show ?thesis
      by (simp add: snd_connect logging_info_def)
  qed
qed

theorem connect_dispatch_witness:
  "connect (example_net 200 (Inr (PDict [(''result'', PBool True)])))
      \<lparr>action = OtherAction ''idle''\<rparr> (example_state example_coordinates) =
     (Inr (), (example_state example_coordinates)
                \<lparr>log_records := [(INFO, MsgAction (OtherAction ''idle''))]\<rparr>)
 \<and> fst (connect (example_net 500 (Inl ''no JSON''))
      \<lparr>action = SHARE_LOCATION\<rparr> (example_state example_coordinates)) = Inr ()
 \<and> posts (snd (connect (example_net 500 (Inl ''no JSON''))
      \<lparr>action = SHARE_LOCATION\<rparr> (example_state example_coordinates))) \<noteq> []"
proof -
  have a: "connect (example_net 200 (Inr (PDict [(''result'', PBool True)])))
      \<lparr>action = OtherAction ''idle''\<rparr> (example_state example_coordinates) =
     (Inr (), (example_state example_coordinates)
                \<lparr>log_records := [(INFO, MsgAction (OtherAction ''idle''))]\<rparr>)"
    using connect_dispatch [of "\<lparr>action = OtherAction ''idle''\<rparr>"
        "example_net 200 (Inr (PDict [(''result'', PBool True)]))"
        "example_state example_coordinates"]
    by (simp add: example_state_def)
  have f: "fst (send_coordinates (example_net 500 (Inl ''no JSON''))
             (logging_info (MsgAction SHARE_LOCATION) (example_state example_coordinates)))
           = Inr False"
    by (simp add: send_coordinates_present example_present Let_def example_net_def
          handle_response_def ok_def)
  have p: "posts (snd (send_coordinates (example_net 500 (Inl ''no JSON''))
             (logging_info (MsgAction SHARE_LOCATION) (example_state example_coordinates))))
           \<noteq> []"
    by (simp add: send_coordinates_posts example_present)
  from f p show ?thesis
    using a connect_dispatch [of "\<lparr>action = SHARE_LOCATION\<rparr>" "example_net 500 (Inl ''no JSON'')"
        "example_state example_coordinates"]
    by auto
qed

section \<open>Instance state\<close>

text \<open>
  C7. Neither \<^verbatim>\<open>send_coordinates\<close> nor \<^verbatim>\<open>connect\<close> changes the connector instance:
  after every call, whatever the network does and whether the call returns or raises,
  \<^verbatim>\<open>self\<close> (its configuration, \<^verbatim>\<open>fabric_endpoint\<close>, \<^verbatim>\<open>request_timeout\<close> and the
  provider reference) is what it was before. The contents of the dynamic-variable store
  are only read.
\<close>

theorem instance_state_unchanged:
  "self (snd (send_coordinates net s)) = self s
 \<and> self (snd (connect net output_interface s)) = self s
 \<and> self_fabric_endpoint (self (snd (send_coordinates net s))) = self_fabric_endpoint (self s)
 \<and> self_request_timeout (self (snd (send_coordinates net s))) = self_request_timeout (self s)
 \<and> self_fabric_endpoint (self (snd (connect net output_interface s)))
      = self_fabric_endpoint (self s)
 \<and> self_request_timeout (self (snd (connect net output_interface s)))
      = self_request_timeout (self s)
 \<and> dynamic_variables (snd (send_coordinates net s)) = dynamic_variables s
 \<and> dynamic_variables (snd (connect net output_interface s)) = dynamic_variables s"
  by (simp add: send_coordinates_self send_coordinates_dynamic_variables snd_connect
        logging_info_def)

section \<open>Default configuration\<close>

text \<open>
  C8. A configuration built without values has endpoint \<^verbatim>\<open>http://localhost:8545\<close> and
  request timeout 10; the connector built from it carries the same two values, and the
  POST that it issues (when the three values are present) goes to that URL with that
  timeout.
\<close>

theorem default_configuration:
  "fabric_endpoint (GPSFabricConfig_new None None) = ''http://localhost:8545''
 \<and> request_timeout (GPSFabricConfig_new None None) = 10
 \<and> self_fabric_endpoint (GPSFabricConnector_init (GPSFabricConfig_new None None))
      = ''http://localhost:8545''
 \<and> self_request_timeout (GPSFabricConnector_init (GPSFabricConfig_new None None)) = 10
 \<and> (self s = GPSFabricConnector_init (GPSFabricConfig_new None None)
      \<and> get_dynamic_variable s ''latitude'' \<noteq> PNone
      \<and> get_dynamic_variable s ''longitude'' \<noteq> PNone
      \<and> get_dynamic_variable s ''yaw_deg'' \<noteq> PNone \<longrightarrow>
        length (posts (snd (send_coordinates net s))) = Suc (length (posts s))
      \<and> post_url (last (posts (snd (send_coordinates net s)))) = ''http://localhost:8545''
      \<and> post_timeout (last (posts (snd (send_coordinates net s)))) = 10)"
  by (simp add: GPSFabricConfig_new_def GPSFabricConnector_init_def send_coordinates_posts
        current_request_def share_request_def)

theorem default_configuration_witness:
  "post_url (last (posts (snd (send_coordinates (example_net 404 (Inl ''not found''))
      (example_state example_coordinates))))) = ''http://localhost:8545''
 \<and> post_timeout (last (posts (snd (send_coordinates (example_net 404 (Inl ''not found''))
      (example_state example_coordinates))))) = 10"
  using default_configuration [of "example_state example_coordinates" "example_net 404 (Inl ''not found'')"]
  by (simp add: example_present)
     (simp add: example_state_def example_connector_def)

section \<open>Bodies of unexpected shape\<close>

text \<open>
  C9. Let the three values be present and the POST return a response with
  \<^verbatim>\<open>response.ok\<close> whose body parses to the JSON value \<open>d\<close>. If \<open>d\<close> is neither an
  object nor an array nor a string (so \<^verbatim>\<open>None\<close>, a bool, an int or a float),
  \<^verbatim>\<open>send_coordinates\<close> does not return: \<^verbatim>\<open>TypeError\<close>, raised by
  \<^verbatim>\<open>"error" in response_data\<close>, leaves it. If \<open>d\<close> is an object with an \<^verbatim>\<open>"error"\<close>
  field whose value is not an object, \<^verbatim>\<open>AttributeError\<close>, raised by \<^verbatim>\<open>error.get\<close>,
  leaves it.
\<close>

theorem unvalidated_body_shape_raises:
  assumes "get_dynamic_variable s ''latitude'' \<noteq> PNone"
      and "get_dynamic_variable s ''longitude'' \<noteq> PNone"
      and "get_dynamic_variable s ''yaw_deg'' \<noteq> PNone"
      and "net (current_request s) = Returns resp"
      and "ok resp"
      and "json_body resp = Inr d"
  shows "((\<forall>kvs. d \<noteq> PDict kvs) \<and> (\<forall>xs. d \<noteq> PList xs) \<and> (\<forall>t. d \<noteq> PStr t) \<longrightarrow>
            fst (send_coordinates net s) = Inl TypeError)
       \<and> (\<forall>kvs e. d = PDict kvs \<and> dict_lookup kvs ''error'' = Some e
              \<and> (\<forall>ekvs. e \<noteq> PDict ekvs) \<longrightarrow>
            fst (send_coordinates net s) = Inl AttributeError)"
  using send_coordinates_ok_body [where net = net and s = s, OF assms]
  by (auto simp add: classify_body_not_container classify_body_error_not_object)

theorem unvalidated_body_shape_raises_witness:
  "fst (send_coordinates (example_net 200 (Inr (PInt 5)))
          (example_state example_coordinates)) = Inl TypeError
 \<and> fst (send_coordinates (example_net 200 (Inr (PBool True)))
          (example_state example_coordinates)) = Inl TypeError
 \<and> fst (send_coordinates (example_net 200 (Inr PNone))
          (example_state example_coordinates)) = Inl TypeError
 \<and> fst (send_coordinates (example_net 200 (Inr (PDict [(''error'', PStr ''boom'')])))
          (example_state example_coordinates)) = Inl AttributeError"
proof -
  have pres: "get_dynamic_variable (example_state example_coordinates) ''latitude'' \<noteq> PNone"
    "get_dynamic_variable (example_state example_coordinates) ''longitude'' \<noteq> PNone"
    "get_dynamic_variable (example_state example_coordinates) ''yaw_deg'' \<noteq> PNone"
    by (simp_all add: example_present)
  have r: "\<And>d. example_net 200 (Inr d) (current_request (example_state example_coordinates))
        = Returns \<lparr> status_code = 200, text_body = [], json_body = Inr d \<rparr>"
    by (simp add: example_net_def)
  have k: "ok \<lparr> status_code = 200, text_body = [], json_body = Inr d \<rparr>" for d
    by (simp add: ok_def)
  have j: "json_body \<lparr> status_code = 200, text_body = [], json_body = Inr d \<rparr> = Inr d" for d
    by simp
  show ?thesis
    using unvalidated_body_shape_raises [where net = "example_net 200 (Inr (PInt 5))", OF pres r k j]
      unvalidated_body_shape_raises [where net = "example_net 200 (Inr (PBool True))", OF pres r k j]
      unvalidated_body_shape_raises [where net = "example_net 200 (Inr PNone)", OF pres r k j]
      unvalidated_body_shape_raises [where net = "example_net 200 (Inr (PDict [(''error'', PStr ''boom'')]))",
           OF pres r k j]
    by simp
qed

section \<open>What the validation lets through\<close>

text \<open>
  C10. The validation compares the fetched values with \<^verbatim>\<open>None\<close> and tests nothing
  else: whenever the store holds values other than \<^verbatim>\<open>None\<close> under the three keys, of
  any type and truthy or not, the POST is issued and the parameter object of its JSON
  body holds exactly these values. The witness instantiates them with \<^verbatim>\<open>0\<close>,
  \<^verbatim>\<open>0.0\<close>, the empty string, an arbitrary string, \<^verbatim>\<open>False\<close> and an empty list.
\<close>

theorem validation_tests_only_none:
  assumes "dynamic_variables s ''latitude'' = Some latitude"
      and "dynamic_variables s ''longitude'' = Some longitude"
      and "dynamic_variables s ''yaw_deg'' = Some yaw"
      and "latitude \<noteq> PNone" and "longitude \<noteq> PNone" and "yaw \<noteq> PNone"
  shows "length (posts (snd (send_coordinates net s))) = Suc (length (posts s))
       \<and> post_json (last (posts (snd (send_coordinates net s)))) =
           PDict [(''method'', PStr ''omp2p_shareStatus''),
                  (''params'', PList [PDict [(''latitude'', latitude),
                                             (''longitude'', longitude),
                                             (''yaw'', yaw)]]),
                  (''id'', PInt 1),
                  (''jsonrpc'', PStr ''2.0'')]"
  using assms
  by (simp add: send_coordinates_posts current_request_def share_request_def envelope_def
        get_dynamic_variable_def)

theorem validation_tests_only_none_witness:
  "\<not> truthy (PInt 0) \<and> \<not> truthy (PFloat (FFinite 0)) \<and> \<not> truthy (PStr [])
 \<and> post_json (last (posts (snd (send_coordinates (example_net 200 (Inr (PDict [])))
      (example_state [(''latitude'', PInt 0), (''longitude'', PFloat (FFinite 0)),
                      (''yaw_deg'', PStr [])]))))) =
           PDict [(''method'', PStr ''omp2p_shareStatus''),
                  (''params'', PList [PDict [(''latitude'', PInt 0),
                                             (''longitude'', PFloat (FFinite 0)),
                                             (''yaw'', PStr [])]]),
                  (''id'', PInt 1),
                  (''jsonrpc'', PStr ''2.0'')]
 \<and> post_json (last (posts (snd (send_coordinates (example_net 200 (Inr (PDict [])))
      (example_state [(''latitude'', PStr ''north''), (''longitude'', PBool False),
                      (''yaw_deg'', PList [])]))))) =
           PDict [(''method'', PStr ''omp2p_shareStatus''),
                  (''params'', PList [PDict [(''latitude'', PStr ''north''),
                                             (''longitude'', PBool False),
                                             (''yaw'', PList [])]]),
                  (''id'', PInt 1),
                  (''jsonrpc'', PStr ''2.0'')]"
  using validation_tests_only_none [of "example_state [(''latitude'', PInt 0), (''longitude'', PFloat (FFinite 0)),
                      (''yaw_deg'', PStr [])]" "PInt 0" "PFloat (FFinite 0)" "PStr []"
             "example_net 200 (Inr (PDict []))"]
    validation_tests_only_none [of "example_state [(''latitude'', PStr ''north''), (''longitude'', PBool False),
                      (''yaw_deg'', PList [])]" "PStr ''north''" "PBool False" "PList []"
             "example_net 200 (Inr (PDict []))"]
  by (simp add: example_state_def)

end
